theory Spec2Isabelle
  imports Main "HOL-Library.Word"
begin

section \<open>Data model of base_dao.go\<close>

text \<open>
  Go's \<open>int64\<close> is a 64-bit word. Go's \<open>int\<close> is taken at its width on a 64-bit
  platform; \<open>+\<close>, \<open>-\<close> and \<open>*\<close> wrap around, and \<open>\<le>s\<close> is the signed comparison.
\<close>

type_synonym int64 = "64 word"
type_synonym go_int = "64 word"

text \<open>\<open>type Page[T any] struct\<close> (lines 32-37).\<close>

record 'r Page =
  Current :: go_int
  Size :: go_int
  Total :: int64
  Records :: "'r list"

definition NewPage :: "go_int \<Rightarrow> go_int \<Rightarrow> 'r Page" where
  "NewPage current size' = \<lparr>Current = current, Size = size', Total = 0, Records = []\<rparr>"

text \<open>
  \<open>Query[T]\<close> is declared outside base_dao.go. The record has the fields base_dao.go
  reads and writes, with the types their uses fix: a \<open>strings.Builder\<close> is the string it
  holds (\<open>Len\<close> is its length, \<open>WriteString\<close> appends, \<open>String\<close> reads it), a
  \<open>[]any\<close> argument slice is a list over a type \<open>'v\<close> of bound values.
\<close>

record 'v Query =
  SelectColumns :: "string list"
  DistinctColumns :: "string list"
  QueryBuilder :: string
  QueryArgs :: "'v list"
  AndBracketBuilder :: string
  AndBracketArgs :: "'v list"
  OrBracketBuilder :: string
  OrBracketArgs :: "'v list"
  OrderBuilder :: string
  GroupBuilder :: string
  HavingBuilder :: string
  HavingArgs :: "'v list"

section \<open>The store collaborator\<close>

text \<open>
  The store (gorm) is external. A handle \<open>*gorm.DB\<close> carries the statement built so far
  and the outcome of the last execution (\<open>Error\<close>, \<open>RowsAffected\<close>). The chain methods
  base_dao.go calls only record their arguments in the statement; each statement built
  here receives at most one \<open>Where\<close>.
\<close>

datatype store_error = ErrRecordNotFound | ErrStore string

record 'v Statement =
  st_model :: bool
  st_distinct :: "string list option"
  st_select :: "string list option"
  st_where :: "(string \<times> 'v list) option"
  st_order :: "string option"
  st_group :: "string option"
  st_having :: "(string \<times> 'v list) option"
  st_offset :: "go_int option"
  st_limit :: "go_int option"

record 'v DB =
  Error :: "store_error option"
  RowsAffected :: int64
  Statement :: "'v Statement"

definition empty_statement :: "'v Statement" where
  "empty_statement =
     \<lparr>st_model = False, st_distinct = None, st_select = None, st_where = None,
      st_order = None, st_group = None, st_having = None, st_offset = None,
      st_limit = None\<rparr>"

text \<open>
  A chain method called on the process-wide handle \<open>gormDb\<close> starts a new session: a
  handle of its own with a fresh statement.
\<close>

definition session :: "'v DB \<Rightarrow> 'v DB" where
  "session g = \<lparr>Error = Error g, RowsAffected = 0, Statement = empty_statement\<rparr>"

definition db_Model :: "'v DB \<Rightarrow> 'v DB" where
  "db_Model d = d\<lparr>Statement := (Statement d)\<lparr>st_model := True\<rparr>\<rparr>"

definition db_Distinct :: "string list \<Rightarrow> 'v DB \<Rightarrow> 'v DB" where
  "db_Distinct cols d = d\<lparr>Statement := (Statement d)\<lparr>st_distinct := Some cols\<rparr>\<rparr>"

definition db_Select :: "string list \<Rightarrow> 'v DB \<Rightarrow> 'v DB" where
  "db_Select cols d = d\<lparr>Statement := (Statement d)\<lparr>st_select := Some cols\<rparr>\<rparr>"

definition db_Where :: "string \<Rightarrow> 'v list \<Rightarrow> 'v DB \<Rightarrow> 'v DB" where
  "db_Where cond args d = d\<lparr>Statement := (Statement d)\<lparr>st_where := Some (cond, args)\<rparr>\<rparr>"

definition db_Order :: "string \<Rightarrow> 'v DB \<Rightarrow> 'v DB" where
  "db_Order s d = d\<lparr>Statement := (Statement d)\<lparr>st_order := Some s\<rparr>\<rparr>"

definition db_Group :: "string \<Rightarrow> 'v DB \<Rightarrow> 'v DB" where
  "db_Group s d = d\<lparr>Statement := (Statement d)\<lparr>st_group := Some s\<rparr>\<rparr>"

definition db_Having :: "string \<Rightarrow> 'v list \<Rightarrow> 'v DB \<Rightarrow> 'v DB" where
  "db_Having cond args d = d\<lparr>Statement := (Statement d)\<lparr>st_having := Some (cond, args)\<rparr>\<rparr>"

definition db_Offset :: "go_int \<Rightarrow> 'v DB \<Rightarrow> 'v DB" where
  "db_Offset n d = d\<lparr>Statement := (Statement d)\<lparr>st_offset := Some n\<rparr>\<rparr>"

definition db_Limit :: "go_int \<Rightarrow> 'v DB \<Rightarrow> 'v DB" where
  "db_Limit n d = d\<lparr>Statement := (Statement d)\<lparr>st_limit := Some n\<rparr>\<rparr>"

text \<open>
  The finisher methods reach the database. Each is one store call; the trace of the
  calls issued so far is part of the state, so that "no store call" and "the data query
  is not executed" are statements about the trace. \<open>TakeCall\<close> carries the inline
  primary-key condition of \<open>Take(&entity, id)\<close> when there is one.
\<close>

datatype ('a, 'k, 'v) store_call =
    CreateInBatches "'a list" go_int
  | DeleteCall "'v Statement"
  | TakeCall "'v Statement" "'k option"
  | FindCall "'v Statement"
  | ScanCall "'v Statement"
  | CountCall "'v Statement"

text \<open>
  What the destination \<open>var entity T\<close> of a \<open>Take\<close> holds after the call: still the zero
  value, or the row the store loaded.
\<close>

datatype 'a entity = ZeroValue | Row 'a

record 'a outcome =
  out_error :: "store_error option"
  out_rows_affected :: int64
  out_count :: int64
  out_entity :: "'a entity"
  out_records :: "'a list"

record ('a, 'k, 'v, 's) world =
  db_state :: 's
  calls :: "('a, 'k, 'v) store_call list"

text \<open>
  The store itself is a parameter \<open>exec\<close>: from a call and the database's state to the
  outcome and the new state. \<open>run\<close> issues one call and logs it; \<open>finish\<close> is the
  finisher writing the outcome into the handle it was called on.
\<close>

definition run ::
  "(('a, 'k, 'v) store_call \<Rightarrow> 's \<Rightarrow> 'a outcome \<times> 's) \<Rightarrow> ('a, 'k, 'v) store_call \<Rightarrow>
   ('a, 'k, 'v, 's) world \<Rightarrow> 'a outcome \<times> ('a, 'k, 'v, 's) world" where
  "run exec c w =
     (case exec c (db_state w) of
        (out, s') \<Rightarrow> (out, \<lparr>db_state = s', calls = calls w @ [c]\<rparr>))"

definition finish :: "'v DB \<Rightarrow> 'a outcome \<Rightarrow> 'v DB" where
  "finish d out = d\<lparr>Error := out_error out, RowsAffected := out_rows_affected out\<rparr>"

section \<open>The operations of base_dao.go\<close>

text \<open>
  \<open>buildCondition\<close> (lines 187-226). The descriptor is a pointer that may be nil and is
  written in place, so the function takes \<open>'v Query option\<close> and returns the descriptor
  as it leaves it, beside the handle.
\<close>

definition buildCondition :: "'v DB \<Rightarrow> 'v Query option \<Rightarrow> 'v DB \<times> 'v Query option" where
  "buildCondition gormDb qo =
     (let resultDb = db_Model (session gormDb) in
      case qo of
        None \<Rightarrow> (resultDb, None)
      | Some q \<Rightarrow>
          (let resultDb = (if length (DistinctColumns q) > 0
                           then db_Distinct (DistinctColumns q) resultDb else resultDb);
               resultDb = (if length (SelectColumns q) > 0
                           then db_Select (SelectColumns q) resultDb else resultDb);
               (resultDb, q) =
                 (if length (QueryBuilder q) > 0 then
                    (let q = (if length (AndBracketBuilder q) > 0
                              then q\<lparr>QueryArgs := QueryArgs q @ AndBracketArgs q,
                                     QueryBuilder := QueryBuilder q @ AndBracketBuilder q\<rparr>
                              else q);
                         q = (if length (OrBracketBuilder q) > 0
                              then q\<lparr>QueryArgs := QueryArgs q @ OrBracketArgs q,
                                     QueryBuilder := QueryBuilder q @ OrBracketBuilder q\<rparr>
                              else q)
                     in (db_Where (QueryBuilder q) (QueryArgs q) resultDb, q))
                  else (resultDb, q));
               resultDb = (if length (OrderBuilder q) > 0
                           then db_Order (OrderBuilder q) resultDb else resultDb);
               resultDb = (if length (GroupBuilder q) > 0
                           then db_Group (GroupBuilder q) resultDb else resultDb);
               resultDb = (if length (HavingBuilder q) > 0
                           then db_Having (HavingBuilder q) (HavingArgs q) resultDb
                           else resultDb)
           in (resultDb, Some q)))"

text \<open>
  \<open>paginate\<close> (lines 172-185) copies \<open>p.Current\<close> and \<open>p.Size\<close> into the locals
  \<open>page\<close> and \<open>pageSize\<close> and returns a closure over these two variables. It is given
  the page by pointer, so the model returns the page as the call leaves it beside the
  closure's variables. \<open>paginate_scope\<close> is the closure's body: it assigns to its
  captured variables and sets offset and limit on the handle. \<open>paginate\<close> is not
  exported; its two callers pass a pointer they have already dereferenced.
\<close>

record scope_vars =
  page :: go_int
  pageSize :: go_int

definition paginate :: "'r Page \<Rightarrow> 'r Page \<times> scope_vars" where
  "paginate p = (p, \<lparr>page = Current p, pageSize = Size p\<rparr>)"

definition paginate_scope :: "scope_vars \<Rightarrow> 'v DB \<Rightarrow> scope_vars \<times> 'v DB" where
  "paginate_scope c db =
     (let c = (if page c \<le>s 0 then c\<lparr>page := 1\<rparr> else c);
          c = (if pageSize c \<le>s 0 then c\<lparr>pageSize := 10\<rparr> else c);
          offset = (page c - 1) * pageSize c
      in (c, db_Limit (pageSize c) (db_Offset offset db)))"

text \<open>\<open>SelectCount\<close> (lines 165-170).\<close>

definition SelectCount ::
  "(('a, 'k, 'v) store_call \<Rightarrow> 's \<Rightarrow> 'a outcome \<times> 's) \<Rightarrow> 'v DB \<Rightarrow> 'v Query option \<Rightarrow>
   ('a, 'k, 'v, 's) world \<Rightarrow> int64 \<times> 'v DB \<times> 'v Query option \<times> ('a, 'k, 'v, 's) world" where
  "SelectCount exec gormDb qo w =
     (case buildCondition gormDb qo of
        (resultDb, qo') \<Rightarrow>
          (case run exec (CountCall (Statement resultDb)) w of
             (out, w') \<Rightarrow> (out_count out, finish resultDb out, qo', w')))"

text \<open>
  \<open>SelectPage\<close> (lines 139-150) and \<open>SelectPageModel\<close> (lines 152-163). \<open>page\<close> is a
  pointer: a nil page is returned as it is on the count-error path and makes the
  assignment \<open>page.Total = total\<close> panic otherwise (the result \<open>None\<close>). The scope
  passed to \<open>Scopes\<close> runs when the finisher executes.
\<close>

definition SelectPage ::
  "(('a, 'k, 'v) store_call \<Rightarrow> 's \<Rightarrow> 'a outcome \<times> 's) \<Rightarrow> 'v DB \<Rightarrow> 'a Page option \<Rightarrow>
   'v Query option \<Rightarrow> ('a, 'k, 'v, 's) world \<Rightarrow>
   ('a Page option \<times> 'v DB \<times> 'v Query option \<times> ('a, 'k, 'v, 's) world) option" where
  "SelectPage exec gormDb pageo qo w =
     (case SelectCount exec gormDb qo w of
        (total', countDb, qo1, w1) \<Rightarrow>
          if Error countDb \<noteq> None then Some (pageo, countDb, qo1, w1)
          else
            (case pageo of
               None \<Rightarrow> None
             | Some pg \<Rightarrow>
                 (let pg = pg\<lparr>Total := total'\<rparr> in
                  case buildCondition gormDb qo1 of
                    (resultDb, qo2) \<Rightarrow>
                      (case paginate pg of
                         (pg, c) \<Rightarrow>
                           (case paginate_scope c resultDb of
                              (c', resultDb) \<Rightarrow>
                                (case run exec (FindCall (Statement resultDb)) w1 of
                                   (out, w2) \<Rightarrow>
                                     Some (Some (pg\<lparr>Records := out_records out\<rparr>),
                                           finish resultDb out, qo2, w2)))))))"

definition SelectPageModel ::
  "(('a, 'k, 'v) store_call \<Rightarrow> 's \<Rightarrow> 'a outcome \<times> 's) \<Rightarrow> 'v DB \<Rightarrow> 'a Page option \<Rightarrow>
   'v Query option \<Rightarrow> ('a, 'k, 'v, 's) world \<Rightarrow>
   ('a Page option \<times> 'v DB \<times> 'v Query option \<times> ('a, 'k, 'v, 's) world) option" where
  "SelectPageModel exec gormDb pageo qo w =
     (case SelectCount exec gormDb qo w of
        (total', countDb, qo1, w1) \<Rightarrow>
          if Error countDb \<noteq> None then Some (pageo, countDb, qo1, w1)
          else
            (case pageo of
               None \<Rightarrow> None
             | Some pg \<Rightarrow>
                 (let pg = pg\<lparr>Total := total'\<rparr> in
                  case buildCondition gormDb qo1 of
                    (resultDb, qo2) \<Rightarrow>
                      (case paginate pg of
                         (pg, c) \<Rightarrow>
                           (case paginate_scope c resultDb of
                              (c', resultDb) \<Rightarrow>
                                (case run exec (ScanCall (Statement resultDb)) w1 of
                                   (out, w2) \<Rightarrow>
                                     Some (Some (pg\<lparr>Records := out_records out\<rparr>),
                                           finish resultDb out, qo2, w2)))))))"

text \<open>
  \<open>SelectById\<close> (lines 100-107) and \<open>SelectOne\<close> (lines 115-123). The returned
  \<open>*T\<close> is \<open>None\<close> for nil and otherwise points to the destination entity.
\<close>

definition SelectById ::
  "(('a, 'k, 'v) store_call \<Rightarrow> 's \<Rightarrow> 'a outcome \<times> 's) \<Rightarrow> 'v DB \<Rightarrow> 'k \<Rightarrow>
   ('a, 'k, 'v, 's) world \<Rightarrow> 'a entity option \<times> 'v DB \<times> ('a, 'k, 'v, 's) world" where
  "SelectById exec gormDb id' w =
     (let resultDb = session gormDb in
      case run exec (TakeCall (Statement resultDb) (Some id')) w of
        (out, w') \<Rightarrow>
          (let resultDb = finish resultDb out in
           if RowsAffected resultDb = 0 then (None, resultDb, w')
           else (Some (out_entity out), resultDb, w')))"

definition SelectOne ::
  "(('a, 'k, 'v) store_call \<Rightarrow> 's \<Rightarrow> 'a outcome \<times> 's) \<Rightarrow> 'v DB \<Rightarrow> 'v Query option \<Rightarrow>
   ('a, 'k, 'v, 's) world \<Rightarrow>
   'a entity option \<times> 'v DB \<times> 'v Query option \<times> ('a, 'k, 'v, 's) world" where
  "SelectOne exec gormDb qo w =
     (case buildCondition gormDb qo of
        (resultDb, qo') \<Rightarrow>
          (case run exec (TakeCall (Statement resultDb) None) w of
             (out, w') \<Rightarrow>
               (let resultDb = finish resultDb out in
                if RowsAffected resultDb = 0 then (None, resultDb, qo', w')
                else (Some (out_entity out), resultDb, qo', w'))))"

text \<open>
  \<open>InsertBatch\<close> (lines 48-54) and \<open>InsertBatchSize\<close> (lines 56-65), with
  \<open>defaultBatchSize\<close> (line 26).
\<close>

definition defaultBatchSize :: go_int where
  "defaultBatchSize = 1000"

definition InsertBatch ::
  "(('a, 'k, 'v) store_call \<Rightarrow> 's \<Rightarrow> 'a outcome \<times> 's) \<Rightarrow> 'v DB \<Rightarrow> 'a list \<Rightarrow>
   ('a, 'k, 'v, 's) world \<Rightarrow> 'v DB \<times> ('a, 'k, 'v, 's) world" where
  "InsertBatch exec gormDb entities w =
     (if length entities = 0 then (gormDb, w)
      else
        (case run exec (CreateInBatches entities defaultBatchSize) w of
           (out, w') \<Rightarrow> (finish (session gormDb) out, w')))"

definition InsertBatchSize ::
  "(('a, 'k, 'v) store_call \<Rightarrow> 's \<Rightarrow> 'a outcome \<times> 's) \<Rightarrow> 'v DB \<Rightarrow> 'a list \<Rightarrow> go_int \<Rightarrow>
   ('a, 'k, 'v, 's) world \<Rightarrow> 'v DB \<times> ('a, 'k, 'v, 's) world" where
  "InsertBatchSize exec gormDb entities batchSize w =
     (if length entities = 0 then (gormDb, w)
      else
        (let batchSize = (if batchSize \<le>s 0 then defaultBatchSize else batchSize) in
         case run exec (CreateInBatches entities batchSize) w of
           (out, w') \<Rightarrow> (finish (session gormDb) out, w')))"

text \<open>
  \<open>getPKColumn\<close> (lines 229-234), \<open>Delete\<close> (lines 84-88) and \<open>DeleteByIds\<close>
  (lines 73-82). The constant \<open>constants.PK\<close> and the descriptor's constructor
  \<open>NewQuery\<close> and method \<open>In\<close> are declared outside base_dao.go and are parameters
  here (\<open>PK\<close>, \<open>newQuery\<close>, \<open>qIn\<close>); \<open>NewQuery\<close> returns a pointer to a
  descriptor of its own. \<open>Delete\<close> reads \<open>q.QueryBuilder\<close> without a nil test, so a nil
  descriptor makes it panic (the result \<open>None\<close>).
\<close>

definition getPKColumn :: "string \<Rightarrow> string list \<Rightarrow> string" where
  "getPKColumn PK primaryKeyColumn =
     (if length primaryKeyColumn > 0 then hd primaryKeyColumn else PK)"

definition Delete ::
  "(('a, 'k, 'v) store_call \<Rightarrow> 's \<Rightarrow> 'a outcome \<times> 's) \<Rightarrow> 'v DB \<Rightarrow> 'v Query option \<Rightarrow>
   ('a, 'k, 'v, 's) world \<Rightarrow> ('v DB \<times> ('a, 'k, 'v, 's) world) option" where
  "Delete exec gormDb qo w =
     (case qo of
        None \<Rightarrow> None
      | Some q \<Rightarrow>
          (let resultDb = db_Where (QueryBuilder q) (QueryArgs q) (session gormDb) in
           case run exec (DeleteCall (Statement resultDb)) w of
             (out, w') \<Rightarrow> Some (finish resultDb out, w')))"

definition DeleteByIds ::
  "(('a, 'k, 'v) store_call \<Rightarrow> 's \<Rightarrow> 'a outcome \<times> 's) \<Rightarrow> 'v DB \<Rightarrow> string \<Rightarrow> 'v Query \<Rightarrow>
   (string \<Rightarrow> 'k list \<Rightarrow> 'v Query \<Rightarrow> 'v Query) \<Rightarrow> 'k list \<Rightarrow> string list \<Rightarrow>
   ('a, 'k, 'v, 's) world \<Rightarrow> ('v DB \<times> ('a, 'k, 'v, 's) world) option" where
  "DeleteByIds exec gormDb PK newQuery qIn ids primaryKeyColumn w =
     (if length ids = 0 then Some (gormDb, w)
      else
        (let q = newQuery;
             q = qIn (getPKColumn PK primaryKeyColumn) ids q
         in Delete exec gormDb (Some q) w))"

text \<open>
  A placeholder is an occurrence of \<open>?\<close> in a condition string; a fragment with its
  arguments has parity when there is one argument for each placeholder.
\<close>

definition placeholders :: "string \<Rightarrow> nat" where
  "placeholders s = length (filter (\<lambda>c. c = CHR ''?'') s)"

definition parity :: "string \<Rightarrow> 'v list \<Rightarrow> bool" where
  "parity s args = (placeholders s = length args)"

text \<open>Observers: the offset and limit a handle's statement carries, and the WHERE a call ran with.\<close>

definition offset_limit :: "'v DB \<Rightarrow> go_int option \<times> go_int option" where
  "offset_limit d = (st_offset (Statement d), st_limit (Statement d))"

definition call_where :: "('a, 'k, 'v) store_call \<Rightarrow> (string \<times> 'v list) option" where
  "call_where c =
     (case c of
        CreateInBatches es n \<Rightarrow> None
      | DeleteCall s \<Rightarrow> st_where s
      | TakeCall s ko \<Rightarrow> st_where s
      | FindCall s \<Rightarrow> st_where s
      | ScanCall s \<Rightarrow> st_where s
      | CountCall s \<Rightarrow> st_where s)"

section \<open>Concrete stores and descriptors\<close>

text \<open>
  Inputs on which the operations are run. \<open>mem_store\<close> keeps a table of keyed rows. It
  counts the rows, serves \<open>Find\<close> and \<open>Scan\<close> with the statement's offset and limit, and
  answers \<open>Take\<close> as gorm does: the row when there is one, and otherwise zero affected
  rows together with \<open>ErrRecordNotFound\<close>. \<open>down_store\<close> fails every call. \<open>opened\<close> is
  a handle as \<open>gorm.Open\<close> returns it.
\<close>

datatype bound_value = VBool bool | VInt int | VStr string

definition mem_store ::
  "('a, 'k, 'v) store_call \<Rightarrow> ('k \<times> 'a) list \<Rightarrow> 'a outcome \<times> ('k \<times> 'a) list" where
  "mem_store c tbl =
     (case c of
        CreateInBatches es n \<Rightarrow>
          (\<lparr>out_error = None, out_rows_affected = of_nat (length es), out_count = 0,
            out_entity = ZeroValue, out_records = []\<rparr>, tbl)
      | DeleteCall s \<Rightarrow>
          (\<lparr>out_error = None, out_rows_affected = 0, out_count = 0,
            out_entity = ZeroValue, out_records = []\<rparr>, tbl)
      | TakeCall s ko \<Rightarrow>
          (case (case ko of
                   None \<Rightarrow> (case tbl of [] \<Rightarrow> None | x # xs \<Rightarrow> Some (snd x))
                 | Some k \<Rightarrow> map_of tbl k) of
             None \<Rightarrow>
               (\<lparr>out_error = Some ErrRecordNotFound, out_rows_affected = 0, out_count = 0,
                 out_entity = ZeroValue, out_records = []\<rparr>, tbl)
           | Some r \<Rightarrow>
               (\<lparr>out_error = None, out_rows_affected = 1, out_count = 0,
                 out_entity = Row r, out_records = []\<rparr>, tbl))
      | FindCall s \<Rightarrow>
          (let rows = map snd tbl;
               rows = (case st_offset s of None \<Rightarrow> rows | Some n \<Rightarrow> drop (unat n) rows);
               rows = (case st_limit s of None \<Rightarrow> rows | Some n \<Rightarrow> take (unat n) rows)
           in (\<lparr>out_error = None, out_rows_affected = of_nat (length rows), out_count = 0,
                out_entity = ZeroValue, out_records = rows\<rparr>, tbl))
      | ScanCall s \<Rightarrow>
          (let rows = map snd tbl;
               rows = (case st_offset s of None \<Rightarrow> rows | Some n \<Rightarrow> drop (unat n) rows);
               rows = (case st_limit s of None \<Rightarrow> rows | Some n \<Rightarrow> take (unat n) rows)
           in (\<lparr>out_error = None, out_rows_affected = of_nat (length rows), out_count = 0,
                out_entity = ZeroValue, out_records = rows\<rparr>, tbl))
      | CountCall s \<Rightarrow>
          (\<lparr>out_error = None, out_rows_affected = 1, out_count = of_nat (length tbl),
            out_entity = ZeroValue, out_records = []\<rparr>, tbl))"

definition down_store :: "('a, 'k, 'v) store_call \<Rightarrow> unit \<Rightarrow> 'a outcome \<times> unit" where
  "down_store c s =
     (\<lparr>out_error = Some (ErrStore ''connection refused''), out_rows_affected = 0,
       out_count = 0, out_entity = ZeroValue, out_records = []\<rparr>, s)"

definition opened :: "'v DB" where
  "opened = \<lparr>Error = None, RowsAffected = 0, Statement = empty_statement\<rparr>"

definition no_calls :: "'s \<Rightarrow> ('a, 'k, 'v, 's) world" where
  "no_calls s = \<lparr>db_state = s, calls = []\<rparr>"

definition plain_query :: "'v Query" where
  "plain_query =
     \<lparr>SelectColumns = [], DistinctColumns = [], QueryBuilder = [], QueryArgs = [],
      AndBracketBuilder = [], AndBracketArgs = [], OrBracketBuilder = [],
      OrBracketArgs = [], OrderBuilder = [], GroupBuilder = [], HavingBuilder = [],
      HavingArgs = []\<rparr>"

definition bracket_query :: "bound_value Query" where
  "bracket_query =
     plain_query
       \<lparr>QueryBuilder := ''active = ?'', QueryArgs := [VBool True],
        AndBracketBuilder := '' AND (age > ?)'', AndBracketArgs := [VInt 18],
        OrBracketBuilder := '' OR (status = ?)'', OrBracketArgs := [VStr ''banned'']\<rparr>"

definition brackets_only_query :: "bound_value Query" where
  "brackets_only_query =
     plain_query
       \<lparr>AndBracketBuilder := '' AND (age > ?)'', AndBracketArgs := [VInt 18],
        OrBracketBuilder := '' OR (status = ?)'', OrBracketArgs := [VStr ''banned'']\<rparr>"

definition rows23 :: "(nat \<times> string) list" where
  "rows23 = map (\<lambda>i. (i, ''row'')) [0..<23]"

definition users :: "(nat \<times> string) list" where
  "users = [(1, ''ann''), (2, ''bob''), (3, ''cy'')]"

section \<open>Auxiliary facts\<close>

subsection \<open>The chain methods touch one field each\<close>

lemma db_chain_Error:
  "Error (db_Model d) = Error d" "Error (db_Distinct cs d) = Error d"
  "Error (db_Select cs d) = Error d" "Error (db_Where s a d) = Error d"
  "Error (db_Order s d) = Error d" "Error (db_Group s d) = Error d"
  "Error (db_Having s a d) = Error d" "Error (session d) = Error d"
  by (simp_all add: db_Model_def db_Distinct_def db_Select_def db_Where_def db_Order_def
      db_Group_def db_Having_def session_def)

lemma db_chain_where:
  "st_where (Statement (db_Model d)) = st_where (Statement d)"
  "st_where (Statement (db_Distinct cs d)) = st_where (Statement d)"
  "st_where (Statement (db_Select cs d)) = st_where (Statement d)"
  "st_where (Statement (db_Where s a d)) = Some (s, a)"
  "st_where (Statement (db_Order s d)) = st_where (Statement d)"
  "st_where (Statement (db_Group s d)) = st_where (Statement d)"
  "st_where (Statement (db_Having s a d)) = st_where (Statement d)"
  "st_where (Statement (session d)) = None"
  by (simp_all add: db_Model_def db_Distinct_def db_Select_def db_Where_def db_Order_def
      db_Group_def db_Having_def session_def empty_statement_def)

lemma db_chain_offset:
  "st_offset (Statement (db_Model d)) = st_offset (Statement d)"
  "st_offset (Statement (db_Distinct cs d)) = st_offset (Statement d)"
  "st_offset (Statement (db_Select cs d)) = st_offset (Statement d)"
  "st_offset (Statement (db_Where s a d)) = st_offset (Statement d)"
  "st_offset (Statement (db_Order s d)) = st_offset (Statement d)"
  "st_offset (Statement (db_Group s d)) = st_offset (Statement d)"
  "st_offset (Statement (db_Having s a d)) = st_offset (Statement d)"
  "st_offset (Statement (session d)) = None"
  by (simp_all add: db_Model_def db_Distinct_def db_Select_def db_Where_def db_Order_def
      db_Group_def db_Having_def session_def empty_statement_def)

lemma db_chain_limit:
  "st_limit (Statement (db_Model d)) = st_limit (Statement d)"
  "st_limit (Statement (db_Distinct cs d)) = st_limit (Statement d)"
  "st_limit (Statement (db_Select cs d)) = st_limit (Statement d)"
  "st_limit (Statement (db_Where s a d)) = st_limit (Statement d)"
  "st_limit (Statement (db_Order s d)) = st_limit (Statement d)"
  "st_limit (Statement (db_Group s d)) = st_limit (Statement d)"
  "st_limit (Statement (db_Having s a d)) = st_limit (Statement d)"
  "st_limit (Statement (session d)) = None"
  by (simp_all add: db_Model_def db_Distinct_def db_Select_def db_Where_def db_Order_def
      db_Group_def db_Having_def session_def empty_statement_def)

text \<open>
  Projections are pushed through the conditionals of \<open>buildCondition\<close> instead of
  splitting on its seven tests.
\<close>

lemma fst_if: "fst (if c then x else y) = (if c then fst x else fst y)"
  by simp

lemma snd_if: "snd (if c then x else y) = (if c then snd x else snd y)"
  by simp

lemma Error_if: "Error x = e \<Longrightarrow> Error y = e \<Longrightarrow> Error (if c then x else y) = e"
  by simp

lemma where_if:
  "st_where (Statement (if c then x else y)) =
     (if c then st_where (Statement x) else st_where (Statement y))"
  by simp

lemma offset_if:
  "st_offset (Statement x) = e \<Longrightarrow> st_offset (Statement y) = e \<Longrightarrow>
   st_offset (Statement (if c then x else y)) = e"
  by simp

lemma limit_if:
  "st_limit (Statement x) = e \<Longrightarrow> st_limit (Statement y) = e \<Longrightarrow>
   st_limit (Statement (if c then x else y)) = e"
  by simp

subsection \<open>What buildCondition computes\<close>

lemma buildCondition_None: "buildCondition g None = (db_Model (session g), None)"
  by (simp add: buildCondition_def)

lemma buildCondition_Error: "Error (fst (buildCondition g qo)) = Error g"
proof (cases qo)
  case None
  then show ?thesis by (simp add: buildCondition_None db_chain_Error)
next
  case (Some q)
  show ?thesis
    unfolding Some buildCondition_def Let_def
    by (simp add: fst_if snd_if Error_if db_chain_Error split_def split del: if_split)
qed

lemma buildCondition_offset: "st_offset (Statement (fst (buildCondition g qo))) = None"
proof (cases qo)
  case None
  then show ?thesis by (simp add: buildCondition_None db_chain_offset)
next
  case (Some q)
  show ?thesis
    unfolding Some buildCondition_def Let_def
    by (simp add: fst_if snd_if offset_if db_chain_offset split_def split del: if_split)
qed

lemma buildCondition_limit: "st_limit (Statement (fst (buildCondition g qo))) = None"
proof (cases qo)
  case None
  then show ?thesis by (simp add: buildCondition_None db_chain_limit)
next
  case (Some q)
  show ?thesis
    unfolding Some buildCondition_def Let_def
    by (simp add: fst_if snd_if limit_if db_chain_limit split_def split del: if_split)
qed

lemma buildCondition_descriptor:
  "snd (buildCondition g (Some q)) =
     Some (if QueryBuilder q = [] then q
           else q\<lparr>QueryBuilder := QueryBuilder q @ AndBracketBuilder q @ OrBracketBuilder q,
                  QueryArgs := QueryArgs q
                    @ (if AndBracketBuilder q = [] then [] else AndBracketArgs q)
                    @ (if OrBracketBuilder q = [] then [] else OrBracketArgs q)\<rparr>)"
  unfolding buildCondition_def Let_def
  by (simp add: split_def)

lemma buildCondition_where:
  "st_where (Statement (fst (buildCondition g (Some q)))) =
     (if QueryBuilder q = [] then None
      else Some (QueryBuilder q @ AndBracketBuilder q @ OrBracketBuilder q,
                 QueryArgs q
                    @ (if AndBracketBuilder q = [] then [] else AndBracketArgs q)
                    @ (if OrBracketBuilder q = [] then [] else OrBracketArgs q)))"
  unfolding buildCondition_def Let_def
  by (simp add: fst_if snd_if where_if db_chain_where split_def)

lemma placeholders_append: "placeholders (s @ t) = placeholders s + placeholders t"
  by (simp add: placeholders_def)

lemma placeholders_Nil: "placeholders [] = 0"
  by (simp add: placeholders_def)

subsection \<open>Pagination, store calls and finishers\<close>

lemma paginate_scope_eq:
  "paginate_scope c db =
     (\<lparr>page = (if page c \<le>s 0 then 1 else page c),
       pageSize = (if pageSize c \<le>s 0 then 10 else pageSize c)\<rparr>,
      db\<lparr>Statement := (Statement db)
           \<lparr>st_offset := Some (((if page c \<le>s 0 then 1 else page c) - 1)
                                * (if pageSize c \<le>s 0 then 10 else pageSize c)),
            st_limit := Some (if pageSize c \<le>s 0 then 10 else pageSize c)\<rparr>\<rparr>)"
  by (simp add: paginate_scope_def db_Limit_def db_Offset_def Let_def)

lemma run_calls: "calls (snd (run exec c w)) = calls w @ [c]"
  by (simp add: run_def split: prod.splits)

lemma SelectCount_calls:
  "calls (snd (snd (snd (SelectCount exec g qo w)))) =
     calls w @ [CountCall (Statement (fst (buildCondition g qo)))]"
proof -
  obtain cdb q1 where bc: "buildCondition g qo = (cdb, q1)"
    by (cases "buildCondition g qo")
  obtain out w1 where r: "run exec (CountCall (Statement cdb)) w = (out, w1)"
    by (cases "run exec (CountCall (Statement cdb)) w")
  show ?thesis
    using run_calls [of exec "CountCall (Statement cdb)" w]
    by (simp add: SelectCount_def bc r)
qed

lemma finish_fields:
  "Error (finish d out) = out_error out"
  "RowsAffected (finish d out) = out_rows_affected out"
  "Statement (finish d out) = Statement d"
  by (simp_all add: finish_def)

text \<open>
  Signed reading of the offset: with a positive page and size the 64-bit product is the
  integer product as long as that stays below \<open>2 ^ 63\<close>.
\<close>

lemma sint_offset:
  fixes p s :: go_int
  assumes "0 <s p" and "0 <s s" and "(sint p - 1) * sint s < 2 ^ 63"
  shows "sint ((p - 1) * s) = (sint p - 1) * sint s"
proof -
  have p: "0 < sint p" and s: "0 < sint s"
    using assms by (simp_all add: word_sless_alt)
  have pb: "sint p < 2 ^ 63"
    using sint_lt [of p] by simp
  have "sint (p - 1) = sint p - 1"
    using p pb by (simp add: sint_word_ariths signed_take_bit_int_eq_self)
  moreover have "0 \<le> (sint p - 1) * sint s"
    using p s by simp
  ultimately show ?thesis
    using assms(3) by (simp add: sint_word_ariths signed_take_bit_int_eq_self)
qed

subsection \<open>A paginated read whose count succeeds\<close>

lemma paginate_Total: "snd (paginate (pg\<lparr>Total := t\<rparr>)) = snd (paginate pg)"
  by (simp add: paginate_def)

lemma SelectPage_ok:
  assumes "buildCondition g qo = (cdb, q1)"
    and "run exec (CountCall (Statement cdb)) w = (out, w1)"
    and "out_error out = None"
    and "buildCondition g q1 = (ddb, q2)"
    and "pdb = snd (paginate_scope (snd (paginate pg)) ddb)"
    and "run exec (FindCall (Statement pdb)) w1 = (out2, w2)"
  shows "SelectPage exec g (Some pg) qo w =
           Some (Some (pg\<lparr>Total := out_count out, Records := out_records out2\<rparr>),
                 finish pdb out2, q2, w2)"
proof -
  have cnt: "SelectCount exec g qo w = (out_count out, finish cdb out, q1, w1)"
    using assms(1,2) by (simp add: SelectCount_def)
  have ok: "Error (finish cdb out) = None"
    using assms(3) by (simp add: finish_fields)
  obtain c' where
    ps: "paginate_scope (snd (paginate (pg\<lparr>Total := out_count out\<rparr>))) ddb = (c', pdb)"
    using assms(5) by (cases "paginate_scope (snd (paginate pg)) ddb") (simp add: paginate_Total)
  show ?thesis
    using ps assms(6) by (simp add: SelectPage_def cnt ok assms(4) paginate_def)
qed

section \<open>Finalizing a descriptor\<close>

text \<open>
  C2. One run of \<open>buildCondition\<close> on a descriptor whose top-level, AND-bracket and
  OR-bracket fragments each have as many arguments as placeholders leaves a descriptor
  with that parity. When there is a top-level condition, the condition is the top-level
  text followed by the AND-bracket text and the OR-bracket text, the arguments are the
  top-level arguments followed by the AND-bracket and the OR-bracket arguments, and this
  pair is the WHERE of the statement. When there is none, the descriptor is left as it
  was and the statement has no WHERE.
\<close>

theorem buildCondition_parity:
  assumes "parity (QueryBuilder q) (QueryArgs q)"
    and "parity (AndBracketBuilder q) (AndBracketArgs q)"
    and "parity (OrBracketBuilder q) (OrBracketArgs q)"
  shows "\<exists>q'. snd (buildCondition g (Some q)) = Some q' \<and>
           parity (QueryBuilder q') (QueryArgs q') \<and>
           (if QueryBuilder q = [] then
              q' = q \<and> st_where (Statement (fst (buildCondition g (Some q)))) = None
            else
              QueryBuilder q' = QueryBuilder q @ AndBracketBuilder q @ OrBracketBuilder q \<and>
              QueryArgs q' = QueryArgs q @ AndBracketArgs q @ OrBracketArgs q \<and>
              st_where (Statement (fst (buildCondition g (Some q)))) =
                Some (QueryBuilder q', QueryArgs q'))"
proof -
  have a: "AndBracketBuilder q = [] \<Longrightarrow> AndBracketArgs q = []"
    using assms(2) by (simp add: parity_def placeholders_Nil)
  have b: "OrBracketBuilder q = [] \<Longrightarrow> OrBracketArgs q = []"
    using assms(3) by (simp add: parity_def placeholders_Nil)
  show ?thesis
    using assms a b
    by (auto simp: buildCondition_descriptor buildCondition_where parity_def placeholders_append)
qed

theorem buildCondition_parity_witness:
  "parity (QueryBuilder bracket_query) (QueryArgs bracket_query) \<and>
   parity (AndBracketBuilder bracket_query) (AndBracketArgs bracket_query) \<and>
   parity (OrBracketBuilder bracket_query) (OrBracketArgs bracket_query) \<and>
   (\<exists>q'. snd (buildCondition (opened :: bound_value DB) (Some bracket_query)) = Some q' \<and>
      parity (QueryBuilder q') (QueryArgs q') \<and>
      QueryBuilder q' = ''active = ? AND (age > ?) OR (status = ?)'' \<and>
      QueryArgs q' = [VBool True, VInt 18, VStr ''banned''] \<and>
      st_where (Statement (fst (buildCondition opened (Some bracket_query)))) =
        Some (''active = ? AND (age > ?) OR (status = ?)'',
              [VBool True, VInt 18, VStr ''banned'']))"
proof -
  have h: "parity (QueryBuilder bracket_query) (QueryArgs bracket_query)"
    "parity (AndBracketBuilder bracket_query) (AndBracketArgs bracket_query)"
    "parity (OrBracketBuilder bracket_query) (OrBracketArgs bracket_query)"
    by (simp_all add: bracket_query_def plain_query_def parity_def placeholders_def)
  show ?thesis
    using h buildCondition_parity [OF h, of opened]
    by (auto simp: bracket_query_def plain_query_def)
qed

text \<open>
  C5. A descriptor with an empty condition builder (no top-level text, no top-level
  arguments) is finalized to an empty condition and an empty argument list, the
  statement gets no WHERE, and the handle carries no error that the global handle did
  not carry. The query a read then executes (here the count of \<open>SelectCount\<close>) runs
  without WHERE.
\<close>

theorem empty_builder_no_where:
  assumes "QueryBuilder q = []" and "QueryArgs q = []"
  shows "st_where (Statement (fst (buildCondition g (Some q)))) = None \<and>
         (\<exists>q'. snd (buildCondition g (Some q)) = Some q' \<and>
               QueryBuilder q' = [] \<and> QueryArgs q' = []) \<and>
         Error (fst (buildCondition g (Some q))) = Error g \<and>
         map call_where (calls (snd (snd (snd (SelectCount exec g (Some q) w))))) =
           map call_where (calls w) @ [None]"
  using assms
  by (simp add: buildCondition_descriptor buildCondition_where buildCondition_Error
      SelectCount_calls call_where_def)

theorem empty_builder_no_where_witness:
  "QueryBuilder (plain_query :: bound_value Query) = [] \<and>
   QueryArgs (plain_query :: bound_value Query) = [] \<and>
   st_where (Statement (fst (buildCondition opened
     (Some (plain_query :: bound_value Query))))) = None \<and>
   Error (fst (buildCondition opened (Some (plain_query :: bound_value Query)))) = None \<and>
   map call_where (calls (snd (snd (snd (SelectCount mem_store opened
     (Some (plain_query :: bound_value Query))
     (no_calls users :: (string, nat, bound_value, _) world)))))) = [None]"
proof -
  have h: "QueryBuilder (plain_query :: bound_value Query) = []"
    "QueryArgs (plain_query :: bound_value Query) = []"
    by (simp_all add: plain_query_def)
  show ?thesis
    using h empty_builder_no_where [OF h, of opened mem_store "no_calls users"]
    by (simp add: opened_def no_calls_def)
qed

text \<open>
  C9. When the top-level builder is empty and a bracket builder is not,
  \<open>buildCondition\<close> puts no WHERE on the statement and leaves the descriptor as it was:
  the bracket text and arguments are neither merged nor passed to the store, and the
  query a read then executes (here the count of \<open>SelectCount\<close>) runs without WHERE.
\<close>

theorem brackets_discarded_without_top_level:
  assumes "QueryBuilder q = []"
    and "AndBracketBuilder q \<noteq> [] \<or> OrBracketBuilder q \<noteq> []"
  shows "st_where (Statement (fst (buildCondition g (Some q)))) = None \<and>
         snd (buildCondition g (Some q)) = Some q \<and>
         map call_where (calls (snd (snd (snd (SelectCount exec g (Some q) w))))) =
           map call_where (calls w) @ [None]"
  using assms(1)
  by (simp add: buildCondition_descriptor buildCondition_where SelectCount_calls call_where_def)

theorem brackets_discarded_witness:
  "QueryBuilder brackets_only_query = [] \<and>
   AndBracketBuilder brackets_only_query = '' AND (age > ?)'' \<and>
   OrBracketBuilder brackets_only_query = '' OR (status = ?)'' \<and>
   st_where (Statement (fst (buildCondition (opened :: bound_value DB)
     (Some brackets_only_query)))) = None \<and>
   snd (buildCondition (opened :: bound_value DB) (Some brackets_only_query)) =
     Some brackets_only_query \<and>
   map call_where (calls (snd (snd (snd (SelectCount mem_store opened
     (Some brackets_only_query)
     (no_calls users :: (string, nat, bound_value, _) world)))))) = [None]"
proof -
  have h: "QueryBuilder brackets_only_query = []"
    "AndBracketBuilder brackets_only_query \<noteq> [] \<or> OrBracketBuilder brackets_only_query \<noteq> []"
    by (simp_all add: brackets_only_query_def plain_query_def)
  show ?thesis
    using brackets_discarded_without_top_level [OF h, of opened mem_store "no_calls users"]
    by (simp add: brackets_only_query_def plain_query_def no_calls_def)
qed

section \<open>The pagination calculator\<close>

text \<open>
  C4. The scope returned by \<open>paginate\<close> sets, for a page with fields \<open>Current\<close> and
  \<open>Size\<close>, the limit to the size (10 when the size is not positive) and the offset to
  (page - 1) * size for the page (1 when the page is not positive) and that size. The
  product is the one of Go's \<open>int\<close>; read as integers it is the integer product
  whenever that is below \<open>2 ^ 63\<close>. The three worked cases of the specification:
  (0, 5) gives (0, 5), (2, 10) gives (10, 10), (-3, 0) gives (0, 10).
\<close>

theorem paginate_offset_limit:
  "offset_limit (snd (paginate_scope (snd (paginate (pg :: 'r Page))) db)) =
     (Some (((if Current pg \<le>s 0 then 1 else Current pg) - 1)
            * (if Size pg \<le>s 0 then 10 else Size pg)),
      Some (if Size pg \<le>s 0 then 10 else Size pg)) \<and>
   ((sint (if Current pg \<le>s 0 then 1 else Current pg) - 1)
      * sint (if Size pg \<le>s 0 then 10 else Size pg) < 2 ^ 63 \<longrightarrow>
    sint (((if Current pg \<le>s 0 then 1 else Current pg) - 1)
           * (if Size pg \<le>s 0 then 10 else Size pg)) =
      (sint (if Current pg \<le>s 0 then 1 else Current pg) - 1)
        * sint (if Size pg \<le>s 0 then 10 else Size pg)) \<and>
   offset_limit (snd (paginate_scope (snd (paginate (NewPage 0 5 :: 'r Page))) db))
     = (Some 0, Some 5) \<and>
   offset_limit (snd (paginate_scope (snd (paginate (NewPage 2 10 :: 'r Page))) db))
     = (Some 10, Some 10) \<and>
   offset_limit (snd (paginate_scope (snd (paginate (NewPage (- 3) 0 :: 'r Page))) db))
     = (Some 0, Some 10)"
proof -
  have pos: "\<And>d n :: go_int. 0 <s d \<Longrightarrow> 0 <s (if n \<le>s 0 then d else n)"
    by (auto simp: word_sle_eq word_sless_alt)
  have one: "0 <s (1 :: go_int)" and ten: "0 <s (10 :: go_int)"
    by (simp_all add: word_sless_alt)
  have general: "offset_limit (snd (paginate_scope (snd (paginate p)) db)) =
     (Some (((if Current p \<le>s 0 then 1 else Current p) - 1)
            * (if Size p \<le>s 0 then 10 else Size p)),
      Some (if Size p \<le>s 0 then 10 else Size p))" for p :: "'r Page"
    by (simp add: paginate_scope_eq paginate_def offset_limit_def)
  have reading: "(sint (if Current pg \<le>s 0 then 1 else Current pg) - 1)
      * sint (if Size pg \<le>s 0 then 10 else Size pg) < 2 ^ 63 \<longrightarrow>
    sint (((if Current pg \<le>s 0 then 1 else Current pg) - 1)
           * (if Size pg \<le>s 0 then 10 else Size pg)) =
      (sint (if Current pg \<le>s 0 then 1 else Current pg) - 1)
        * sint (if Size pg \<le>s 0 then 10 else Size pg)"
    using sint_offset [OF pos [OF one] pos [OF ten]] by blast
  have e1: "offset_limit (snd (paginate_scope (snd (paginate (NewPage 0 5 :: 'r Page))) db))
     = (Some 0, Some 5)"
    by (simp add: general NewPage_def word_sle_eq)
  have e2: "offset_limit (snd (paginate_scope (snd (paginate (NewPage 2 10 :: 'r Page))) db))
     = (Some 10, Some 10)"
    by (simp add: general NewPage_def word_sle_eq)
  have e3: "offset_limit (snd (paginate_scope (snd (paginate (NewPage (- 3) 0 :: 'r Page))) db))
     = (Some 0, Some 10)"
    by (simp add: general NewPage_def word_sle_eq)
  show ?thesis
    using general [of pg] reading e1 e2 e3 by blast
qed

theorem paginate_offset_limit_witness:
  "(sint (3 :: go_int) - 1) * sint (10 :: go_int) < 2 ^ 63 \<and>
   sint ((3 - 1) * 10 :: go_int) = 20 \<and>
   offset_limit (snd (paginate_scope (snd (paginate (NewPage 3 10 :: string Page)))
     (opened :: bound_value DB))) = (Some 20, Some 10)"
  using paginate_offset_limit [of "NewPage 3 10 :: string Page" "opened :: bound_value DB"]
  by (simp add: NewPage_def word_sle_eq)

text \<open>
  C10. \<open>paginate\<close> leaves the page it is given as it was: normalization assigns to the
  closure's own variables \<open>page\<close> and \<open>pageSize\<close>. So the page a paginated read
  returns still has the \<open>Current\<close> and \<open>Size\<close> it was called with, also when the query
  ran with the normalized values.
\<close>

theorem paginate_leaves_page:
  "fst (paginate pg) = pg \<and>
   fst (paginate_scope (snd (paginate pg)) db) =
     \<lparr>page = (if Current pg \<le>s 0 then 1 else Current pg),
      pageSize = (if Size pg \<le>s 0 then 10 else Size pg)\<rparr> \<and>
   (\<exists>pg' r. SelectPage exec g (Some pg) qo w = Some (Some pg', r) \<and>
      Current pg' = Current pg \<and> Size pg' = Size pg) \<and>
   (\<exists>pg' r. SelectPageModel exec g (Some pg) qo w = Some (Some pg', r) \<and>
      Current pg' = Current pg \<and> Size pg' = Size pg)"
proof -
  have "\<exists>pg' r. SelectPage exec g (Some pg) qo w = Some (Some pg', r) \<and>
      Current pg' = Current pg \<and> Size pg' = Size pg"
    by (simp add: SelectPage_def paginate_def split: prod.splits)
  moreover have "\<exists>pg' r. SelectPageModel exec g (Some pg) qo w = Some (Some pg', r) \<and>
      Current pg' = Current pg \<and> Size pg' = Size pg"
    by (simp add: SelectPageModel_def paginate_def split: prod.splits)
  ultimately show ?thesis
    by (simp add: paginate_def paginate_scope_eq)
qed

section \<open>Paginated reads\<close>

text \<open>
  C3. When the count query of \<open>SelectPage\<close> or \<open>SelectPageModel\<close> reports an error,
  the operation returns the page as it was passed (its \<open>Total\<close> untouched) together with
  the count's handle, whose error is the count's error, and the count is the only call
  that reached the store: no data query is issued.
\<close>

theorem SelectPage_count_error:
  assumes "run exec (CountCall (Statement (fst (buildCondition g qo)))) w = (out, w1)"
    and "out_error out \<noteq> None"
  shows "SelectPage exec g pageo qo w =
           Some (pageo, finish (fst (buildCondition g qo)) out, snd (buildCondition g qo), w1) \<and>
         SelectPageModel exec g pageo qo w =
           Some (pageo, finish (fst (buildCondition g qo)) out, snd (buildCondition g qo), w1) \<and>
         Error (finish (fst (buildCondition g qo)) out) = out_error out \<and>
         calls w1 = calls w @ [CountCall (Statement (fst (buildCondition g qo)))]"
proof -
  obtain cdb q1 where bc: "buildCondition g qo = (cdb, q1)"
    by (cases "buildCondition g qo")
  have cnt: "SelectCount exec g qo w = (out_count out, finish cdb out, q1, w1)"
    using assms(1) by (simp add: SelectCount_def bc)
  have err: "Error (finish cdb out) \<noteq> None"
    using assms(2) by (simp add: finish_fields)
  have "calls w1 = calls w @ [CountCall (Statement cdb)]"
    using run_calls [of exec "CountCall (Statement cdb)" w] assms(1) by (simp add: bc)
  then show ?thesis
    using cnt err by (simp add: SelectPage_def SelectPageModel_def bc finish_fields)
qed

theorem SelectPage_count_error_witness:
  "\<exists>out w1.
      run down_store (CountCall (Statement (fst (buildCondition opened (Some bracket_query)))))
        (no_calls ()) = (out, w1 :: (string, nat, bound_value, unit) world) \<and>
      out_error out = Some (ErrStore ''connection refused'') \<and>
      SelectPage down_store opened (Some (NewPage 3 10)) (Some bracket_query) (no_calls ()) =
        Some (Some (NewPage 3 10), finish (fst (buildCondition opened (Some bracket_query))) out,
              snd (buildCondition opened (Some bracket_query)), w1) \<and>
      SelectPageModel down_store opened (Some (NewPage 3 10)) (Some bracket_query) (no_calls ()) =
        Some (Some (NewPage 3 10), finish (fst (buildCondition opened (Some bracket_query))) out,
              snd (buildCondition opened (Some bracket_query)), w1) \<and>
      Error (finish (fst (buildCondition opened (Some bracket_query))) out) =
        Some (ErrStore ''connection refused'') \<and>
      calls w1 = [CountCall (Statement (fst (buildCondition opened (Some bracket_query))))]"
proof -
  obtain out and w1 :: "(string, nat, bound_value, unit) world" where
    r: "run down_store (CountCall (Statement (fst (buildCondition opened (Some bracket_query)))))
          (no_calls ()) = (out, w1)"
    by (cases "run down_store
        (CountCall (Statement (fst (buildCondition opened (Some bracket_query)))))
        (no_calls () :: (string, nat, bound_value, unit) world)")
  have e: "out_error out = Some (ErrStore ''connection refused'')"
    using r by (auto simp: run_def down_store_def)
  then have h: "out_error out \<noteq> None"
    by simp
  show ?thesis
    using r e SelectPage_count_error [OF r h, of "Some (NewPage 3 10)"]
    by (simp add: no_calls_def)
qed

text \<open>
  C7. When the count query succeeds, \<open>SelectPage\<close> returns a page whose \<open>Total\<close> is the
  count the store reported for a statement without offset and limit; the data query carries
  the offset and limit of the pagination calculator, and \<open>Records\<close> is whatever that
  query returned, whatever its length. With 23 rows, page 3 and size 10: offset 20, limit
  10, three records, \<open>Total\<close> 23.
\<close>

theorem SelectPage_total:
  assumes "run exec (CountCall (Statement (fst (buildCondition g qo)))) w = (out, w1)"
    and "out_error out = None"
  shows "\<exists>pg' db' qo' w'.
           SelectPage exec g (Some pg) qo w = Some (Some pg', db', qo', w') \<and>
           Total pg' = out_count out \<and>
           offset_limit (fst (buildCondition g qo)) = (None, None) \<and>
           offset_limit db' =
             (Some (((if Current pg \<le>s 0 then 1 else Current pg) - 1)
                    * (if Size pg \<le>s 0 then 10 else Size pg)),
              Some (if Size pg \<le>s 0 then 10 else Size pg)) \<and>
           Records pg' = out_records (fst (run exec (FindCall (Statement db')) w1)) \<and>
           calls w' = calls w @ [CountCall (Statement (fst (buildCondition g qo))),
                                 FindCall (Statement db')]"
proof -
  obtain cdb q1 where bc: "buildCondition g qo = (cdb, q1)"
    by (cases "buildCondition g qo")
  obtain ddb q2 where bd: "buildCondition g q1 = (ddb, q2)"
    by (cases "buildCondition g q1")
  have cnt: "SelectCount exec g qo w = (out_count out, finish cdb out, q1, w1)"
    using assms(1) by (simp add: SelectCount_def bc)
  have ok: "Error (finish cdb out) = None"
    using assms(2) by (simp add: finish_fields)
  have c1: "calls w1 = calls w @ [CountCall (Statement cdb)]"
    using run_calls [of exec "CountCall (Statement cdb)" w] assms(1) by (simp add: bc)
  obtain c' pdb where
    ps: "paginate_scope (snd (paginate (pg\<lparr>Total := out_count out\<rparr>))) ddb = (c', pdb)"
    by (cases "paginate_scope (snd (paginate (pg\<lparr>Total := out_count out\<rparr>))) ddb")
  have ol: "offset_limit pdb =
      (Some (((if Current pg \<le>s 0 then 1 else Current pg) - 1)
             * (if Size pg \<le>s 0 then 10 else Size pg)),
       Some (if Size pg \<le>s 0 then 10 else Size pg))"
    using ps by (auto simp: paginate_scope_eq paginate_def offset_limit_def)
  obtain out2 w2 where fd: "run exec (FindCall (Statement pdb)) w1 = (out2, w2)"
    by (cases "run exec (FindCall (Statement pdb)) w1")
  have c2: "calls w2 = calls w1 @ [FindCall (Statement pdb)]"
    using run_calls [of exec "FindCall (Statement pdb)" w1] fd by simp
  have "SelectPage exec g (Some pg) qo w =
          Some (Some (pg\<lparr>Total := out_count out, Records := out_records out2\<rparr>),
                finish pdb out2, q2, w2)"
    using ps fd by (simp add: SelectPage_def cnt ok bd paginate_def)
  moreover have "offset_limit cdb = (None, None)"
    using buildCondition_offset [of g qo] buildCondition_limit [of g qo]
    by (simp add: bc offset_limit_def)
  ultimately show ?thesis
    using c1 c2 fd ol by (simp add: bc finish_fields offset_limit_def)
qed

theorem SelectPage_total_witness:
  "out_error (fst (run mem_store
      (CountCall (Statement (fst (buildCondition opened (Some bracket_query)))))
      (no_calls rows23 :: (string, nat, bound_value, (nat \<times> string) list) world))) = None \<and>
   (\<exists>pg' db' qo' w'.
     SelectPage mem_store opened (Some (NewPage 3 10)) (Some bracket_query) (no_calls rows23)
       = Some (Some pg', db', qo', w') \<and>
     Total pg' = 23 \<and> length (Records pg') = 3 \<and>
     offset_limit db' = (Some 20, Some 10))"
proof -
  let ?c = "CountCall (Statement (fst (buildCondition opened (Some bracket_query))))
              :: (string, nat, bound_value) store_call"
  obtain out w1 where r: "run mem_store ?c (no_calls rows23) = (out, w1)"
    by (cases "run mem_store ?c (no_calls rows23)")
  have o: "out_error out = None" "out_count out = 23" "db_state w1 = rows23"
    using r by (auto simp: run_def mem_store_def no_calls_def rows23_def)
  from SelectPage_total [OF r o(1), of "NewPage 3 10"]
  obtain pg' db' qo' w' where
    s: "SelectPage mem_store opened (Some (NewPage 3 10)) (Some bracket_query)
          (no_calls rows23) = Some (Some pg', db', qo', w')"
    and t: "Total pg' = out_count out"
    and ol: "offset_limit db' = (Some 20, Some 10)"
    and rc: "Records pg' = out_records (fst (run mem_store (FindCall (Statement db')) w1))"
    by (auto simp: NewPage_def word_sle_eq)
  have "length (Records pg') = 3"
    using ol o(3) by (simp add: rc run_def mem_store_def offset_limit_def rows23_def)
  then show ?thesis
    using s t ol o(1,2) r by auto
qed

text \<open>
  C1. \<open>SelectPage\<close> calls \<open>buildCondition\<close> twice on the same descriptor, once inside
  \<open>SelectCount\<close> and once for the data query, and each call appends the bracket text and
  arguments to the top-level builder. On the descriptor with top-level \<open>active = ?\<close>,
  AND-bracket \<open>(age > ?)\<close> and OR-bracket \<open>(status = ?)\<close> the count query runs with the
  condition merged once and the data query with the brackets and their arguments in it
  twice.
\<close>

theorem SelectPage_merges_brackets_twice:
  "(case SelectPage mem_store opened (Some (NewPage 1 10)) (Some bracket_query)
           (no_calls users) of
      None \<Rightarrow> False
    | Some (pg, db, qo, w) \<Rightarrow>
        map call_where (calls w) =
          [Some (''active = ? AND (age > ?) OR (status = ?)'',
                 [VBool True, VInt 18, VStr ''banned'']),
           Some (''active = ? AND (age > ?) OR (status = ?) AND (age > ?) OR (status = ?)'',
                 [VBool True, VInt 18, VStr ''banned'', VInt 18, VStr ''banned''])] \<and>
        map_option QueryBuilder qo =
          Some ''active = ? AND (age > ?) OR (status = ?) AND (age > ?) OR (status = ?)'')"
proof -
  let ?w = "no_calls users :: (string, nat, bound_value, (nat \<times> string) list) world"
  have f: "QueryBuilder bracket_query = ''active = ?''"
    "QueryArgs bracket_query = [VBool True]"
    "AndBracketBuilder bracket_query = '' AND (age > ?)''"
    "AndBracketArgs bracket_query = [VInt 18]"
    "OrBracketBuilder bracket_query = '' OR (status = ?)''"
    "OrBracketArgs bracket_query = [VStr ''banned'']"
    by (simp_all add: bracket_query_def plain_query_def)
  define q1 where "q1 = bracket_query
      \<lparr>QueryBuilder := ''active = ? AND (age > ?) OR (status = ?)'',
       QueryArgs := [VBool True, VInt 18, VStr ''banned'']\<rparr>"
  obtain cdb qo1 where bc: "buildCondition opened (Some bracket_query) = (cdb, qo1)"
    by (cases "buildCondition opened (Some bracket_query) :: _ \<times> bound_value Query option")
  have d1: "qo1 = Some q1"
    using buildCondition_descriptor [of opened bracket_query]
    unfolding bc by (simp add: f q1_def)
  have w1: "st_where (Statement cdb) = Some (''active = ? AND (age > ?) OR (status = ?)'',
      [VBool True, VInt 18, VStr ''banned''])"
    using buildCondition_where [of opened bracket_query]
    unfolding bc by (simp add: f)
  obtain ddb qo2 where bd: "buildCondition opened qo1 = (ddb, qo2)"
    by (cases "buildCondition opened qo1")
  have d2: "map_option QueryBuilder qo2 =
      Some ''active = ? AND (age > ?) OR (status = ?) AND (age > ?) OR (status = ?)''"
    using buildCondition_descriptor [of opened q1] bd
    unfolding d1 by (simp add: f q1_def)
  have w2: "st_where (Statement ddb) =
      Some (''active = ? AND (age > ?) OR (status = ?) AND (age > ?) OR (status = ?)'',
        [VBool True, VInt 18, VStr ''banned'', VInt 18, VStr ''banned''])"
    using buildCondition_where [of opened q1] bd
    unfolding d1 by (simp add: f q1_def)
  define pdb where "pdb = snd (paginate_scope (snd (paginate (NewPage 1 10 :: string Page))) ddb)"
  have w3: "st_where (Statement pdb) = st_where (Statement ddb)"
    by (simp add: pdb_def paginate_scope_eq)
  obtain out wc where rc: "run mem_store (CountCall (Statement cdb)) ?w = (out, wc)"
    by (cases "run mem_store (CountCall (Statement cdb)) ?w")
  have ok: "out_error out = None"
    using rc by (auto simp: run_def mem_store_def)
  obtain out2 wf where rf: "run mem_store (FindCall (Statement pdb)) wc = (out2, wf)"
    by (cases "run mem_store (FindCall (Statement pdb)) wc")
  have "calls wc = [CountCall (Statement cdb)]"
    using run_calls [of mem_store "CountCall (Statement cdb)" ?w] rc
    by (simp add: no_calls_def)
  then have c: "calls wf = [CountCall (Statement cdb), FindCall (Statement pdb)]"
    using run_calls [of mem_store "FindCall (Statement pdb)" wc] rf by simp
  show ?thesis
    using SelectPage_ok [OF bc rc ok bd pdb_def rf] c d2 w1 w2 w3
    by (simp add: call_where_def)
qed

section \<open>Single-row reads\<close>

text \<open>
  C6. Whenever the store's \<open>Take\<close> reports zero affected rows, \<open>SelectById\<close> returns a
  nil record and the handle of that call: zero affected rows, and the error the store
  reported for it, neither added to nor cleared. The same holds for \<open>SelectOne\<close>, for
  its own call, store and state: the two halves share no hypothesis.
\<close>

theorem Select_zero_rows:
  "(out_rows_affected (fst (run exec (TakeCall (Statement (session g)) (Some k)) w)) = 0 \<longrightarrow>
      SelectById exec g k w =
        (None, finish (session g) (fst (run exec (TakeCall (Statement (session g)) (Some k)) w)),
         snd (run exec (TakeCall (Statement (session g)) (Some k)) w)) \<and>
      RowsAffected (fst (snd (SelectById exec g k w))) = 0 \<and>
      Error (fst (snd (SelectById exec g k w))) =
        out_error (fst (run exec (TakeCall (Statement (session g)) (Some k)) w))) \<and>
   (out_rows_affected
      (fst (run exec' (TakeCall (Statement (fst (buildCondition g' qo))) None) v)) = 0 \<longrightarrow>
      SelectOne exec' g' qo v =
        (None,
         finish (fst (buildCondition g' qo))
           (fst (run exec' (TakeCall (Statement (fst (buildCondition g' qo))) None) v)),
         snd (buildCondition g' qo),
         snd (run exec' (TakeCall (Statement (fst (buildCondition g' qo))) None) v)) \<and>
      RowsAffected (fst (snd (SelectOne exec' g' qo v))) = 0 \<and>
      Error (fst (snd (SelectOne exec' g' qo v))) =
        out_error (fst (run exec' (TakeCall (Statement (fst (buildCondition g' qo))) None) v)))"
proof -
  obtain out w' where a: "run exec (TakeCall (Statement (session g)) (Some k)) w = (out, w')"
    by (cases "run exec (TakeCall (Statement (session g)) (Some k)) w")
  obtain cdb q1 where bc: "buildCondition g' qo = (cdb, q1)"
    by (cases "buildCondition g' qo")
  obtain out1 v1 where b: "run exec' (TakeCall (Statement cdb) None) v = (out1, v1)"
    by (cases "run exec' (TakeCall (Statement cdb) None) v")
  have byid: "out_rows_affected out = 0 \<Longrightarrow>
      SelectById exec g k w = (None, finish (session g) out, w')"
    using a by (simp add: SelectById_def finish_fields Let_def)
  have one: "out_rows_affected out1 = 0 \<Longrightarrow>
      SelectOne exec' g' qo v = (None, finish cdb out1, q1, v1)"
    using b by (simp add: SelectOne_def bc finish_fields Let_def)
  show ?thesis
    using byid one by (simp add: a b bc finish_fields)
qed

theorem Select_zero_rows_witness:
  "out_rows_affected (fst (run mem_store
      (TakeCall (Statement (session (opened :: bound_value DB))) (Some (7 :: nat)))
      (no_calls users :: (string, nat, bound_value, (nat \<times> string) list) world))) = 0 \<and>
   SelectById mem_store (opened :: bound_value DB) (7 :: nat) (no_calls users) =
     (None, \<lparr>Error = Some ErrRecordNotFound, RowsAffected = 0, Statement = empty_statement\<rparr>,
      \<lparr>db_state = users, calls = [TakeCall empty_statement (Some 7)]\<rparr>) \<and>
   out_rows_affected (fst (run mem_store
      (TakeCall (Statement (fst (buildCondition (opened :: bound_value DB)
         (Some bracket_query)))) None)
      (no_calls [] :: (string, nat, bound_value, (nat \<times> string) list) world))) = 0 \<and>
   fst (SelectOne mem_store (opened :: bound_value DB) (Some bracket_query)
     (no_calls [] :: (string, nat, bound_value, (nat \<times> string) list) world)) = None \<and>
   RowsAffected (fst (snd (SelectOne mem_store (opened :: bound_value DB) (Some bracket_query)
     (no_calls [] :: (string, nat, bound_value, (nat \<times> string) list) world)))) = 0 \<and>
   Error (fst (snd (SelectOne mem_store (opened :: bound_value DB) (Some bracket_query)
     (no_calls [] :: (string, nat, bound_value, (nat \<times> string) list) world)))) =
     Some ErrRecordNotFound"
proof -
  let ?w = "no_calls users :: (string, nat, bound_value, (nat \<times> string) list) world"
  let ?v = "no_calls [] :: (string, nat, bound_value, (nat \<times> string) list) world"
  let ?g = "opened :: bound_value DB"
  let ?q = "Some bracket_query"
  have a: "run mem_store (TakeCall (Statement (session ?g)) (Some 7)) ?w =
      (\<lparr>out_error = Some ErrRecordNotFound, out_rows_affected = 0, out_count = 0,
        out_entity = ZeroValue, out_records = []\<rparr>,
       \<lparr>db_state = users, calls = [TakeCall empty_statement (Some 7)]\<rparr>)"
    by (simp add: run_def mem_store_def no_calls_def session_def users_def)
  have b: "fst (run mem_store (TakeCall (Statement (fst (buildCondition ?g ?q))) None) ?v) =
      \<lparr>out_error = Some ErrRecordNotFound, out_rows_affected = 0, out_count = 0,
        out_entity = ZeroValue, out_records = []\<rparr>"
    by (simp add: run_def mem_store_def no_calls_def)
  have h1: "out_rows_affected
      (fst (run mem_store (TakeCall (Statement (session ?g)) (Some 7)) ?w)) = 0"
    by (simp only: a fst_conv outcome.simps)
  have h2: "out_rows_affected
      (fst (run mem_store (TakeCall (Statement (fst (buildCondition ?g ?q))) None) ?v)) = 0"
    by (simp only: b outcome.simps)
  note t = Select_zero_rows [of mem_store ?g 7 ?w mem_store ?g ?q ?v]
  have c1: "SelectById mem_store ?g 7 ?w =
      (None,
       finish (session ?g)
         (fst (run mem_store (TakeCall (Statement (session ?g)) (Some 7)) ?w)),
       snd (run mem_store (TakeCall (Statement (session ?g)) (Some 7)) ?w))"
    using t h1 by blast
  have c2: "SelectOne mem_store ?g ?q ?v =
        (None,
         finish (fst (buildCondition ?g ?q))
           (fst (run mem_store (TakeCall (Statement (fst (buildCondition ?g ?q))) None) ?v)),
         snd (buildCondition ?g ?q),
         snd (run mem_store (TakeCall (Statement (fst (buildCondition ?g ?q))) None) ?v))"
    using t h2 by blast
  have d1: "SelectById mem_store ?g 7 ?w =
     (None, \<lparr>Error = Some ErrRecordNotFound, RowsAffected = 0, Statement = empty_statement\<rparr>,
      \<lparr>db_state = users, calls = [TakeCall empty_statement (Some 7)]\<rparr>)"
    unfolding c1 a by (simp add: finish_def session_def)
  have d2: "fst (SelectOne mem_store ?g ?q ?v) = None"
    "RowsAffected (fst (snd (SelectOne mem_store ?g ?q ?v))) = 0"
    "Error (fst (snd (SelectOne mem_store ?g ?q ?v))) = Some ErrRecordNotFound"
    unfolding c2 b by (simp_all add: finish_fields)
  show ?thesis
    using h1 h2 d1 d2 by blast
qed

text \<open>
  C6, the zero-row outcome as an error. Whether zero rows come with an error is the
  store's answer, which the two operations pass on, and gorm's \<open>Take\<close> reports
  \<open>ErrRecordNotFound\<close> for them: on a table without key 7, \<open>SelectById\<close> returns a nil
  record, zero affected rows and that error.
\<close>

theorem SelectById_absent_row_is_error:
  "fst (SelectById mem_store (opened :: bound_value DB) (7 :: nat)
     (no_calls users :: (string, nat, bound_value, (nat \<times> string) list) world)) = None \<and>
   RowsAffected (fst (snd (SelectById mem_store (opened :: bound_value DB) (7 :: nat)
     (no_calls users :: (string, nat, bound_value, (nat \<times> string) list) world)))) = 0 \<and>
   Error (fst (snd (SelectById mem_store (opened :: bound_value DB) (7 :: nat)
     (no_calls users :: (string, nat, bound_value, (nat \<times> string) list) world)))) =
     Some ErrRecordNotFound"
  by (simp add: SelectById_def run_def mem_store_def no_calls_def users_def finish_def
      session_def opened_def)

section \<open>Empty batches\<close>

text \<open>
  C8. \<open>InsertBatch\<close> and \<open>InsertBatchSize\<close> (for every batch size) on an empty list of
  entities, and \<open>DeleteByIds\<close> on an empty list of ids, return the global handle itself
  and leave the store and the trace of store calls as they were; with a handle that
  carries no error the result carries none.
\<close>

theorem empty_input_noop:
  assumes "Error g = None"
  shows "InsertBatch exec g [] w = (g, w) \<and>
         InsertBatchSize exec g [] n w = (g, w) \<and>
         DeleteByIds exec g PK newQuery qIn [] cols w = Some (g, w) \<and>
         Error (fst (InsertBatch exec g [] w)) = None \<and>
         Error (fst (InsertBatchSize exec g [] n w)) = None \<and>
         map_option (\<lambda>r. Error (fst r)) (DeleteByIds exec g PK newQuery qIn [] cols w) =
           Some None \<and>
         calls (snd (InsertBatch exec g [] w)) = calls w \<and>
         calls (snd (InsertBatchSize exec g [] n w)) = calls w \<and>
         map_option (\<lambda>r. calls (snd r)) (DeleteByIds exec g PK newQuery qIn [] cols w) =
           Some (calls w)"
  using assms by (simp add: InsertBatch_def InsertBatchSize_def DeleteByIds_def)

theorem empty_input_noop_witness:
  "Error (opened :: bound_value DB) = None \<and>
   InsertBatch mem_store (opened :: bound_value DB) ([] :: string list)
     (no_calls users) = (opened, no_calls users) \<and>
   InsertBatchSize mem_store (opened :: bound_value DB) ([] :: string list) 0
     (no_calls users) = (opened, no_calls users) \<and>
   DeleteByIds mem_store (opened :: bound_value DB) ''id'' plain_query (\<lambda>col ids q. q)
     ([] :: nat list) [] (no_calls users :: (string, nat, bound_value, _) world) =
     Some (opened, no_calls users) \<and>
   calls (snd (InsertBatch mem_store (opened :: bound_value DB) ([] :: string list)
     (no_calls users :: (string, nat, bound_value, _) world))) = []"
proof -
  have h: "Error (opened :: bound_value DB) = None"
    by (simp add: opened_def)
  show ?thesis
    using h
      empty_input_noop [OF h, of mem_store
        "no_calls users :: (string, nat, bound_value, _) world" 0 "''id''" plain_query
        "\<lambda>col ids q. q" "[]"]
    by (simp add: no_calls_def)
qed

end
